theory Spec2Isabelle
  imports Main "HOL-Library.AList"
begin

section \<open>RNN decoders of txtgen (txtgen/modules/decoders/rnn_decoders.py)\<close>

text \<open>
  The module defines two decoders, \<open>BasicRNNDecoder\<close> and \<open>AttentionRNNDecoder\<close>, on top of
  a host framework. Everything the decoders call in the host (the recurrent cell, the
  helper, \<open>fully_connected\<close>, \<open>get_instance\<close>, \<open>AttentionWrapper\<close>, the constructor of the
  base class) is a parameter of the model: a computation that reads and changes the
  host's state and may raise. The dictionaries the constructor changes in place are
  objects of an explicit store.
\<close>

subsection \<open>Exceptions and host computations\<close>

text \<open>
  The exceptions this module can raise by itself are Python's \<open>TypeError\<close> and \<open>KeyError\<close>.
  The argument of \<open>TypeError\<close> names the cause; it is not the text of the interpreter's
  message. \<open>HostError\<close> stands for whatever a host call raises.
\<close>

datatype type_error_cause =
    NotSubscriptable
  | IndicesMustBeIntegers
  | NoItemAssignment
  | NotAMapping
  | UnexpectedKeyword string
  | MultipleValues string
  | TooManyPositional
  | MissingArgument string

datatype error = TypeError type_error_cause | KeyError string | HostError string

text \<open>
  A computation over the host state \<open>'w\<close>: it raises, or returns a value and the next
  host state.
\<close>

type_synonym ('w, 'a) fw = "'w \<Rightarrow> error + 'a \<times> 'w"

definition returnE :: "'a \<Rightarrow> ('w, 'a) fw" where
  "returnE x w = Inr (x, w)"

definition bindE :: "('w, 'a) fw \<Rightarrow> ('a \<Rightarrow> ('w, 'b) fw) \<Rightarrow> ('w, 'b) fw" where
  "bindE m f w = (case m w of Inl e \<Rightarrow> Inl e | Inr (x, w') \<Rightarrow> f x w')"

text \<open>A pure step that may raise, run inside a host computation.\<close>

definition liftE :: "error + 'a \<Rightarrow> ('w, 'a) fw" where
  "liftE r w = (case r of Inl e \<Rightarrow> Inl e | Inr x \<Rightarrow> Inr (x, w))"

subsection \<open>Python values and the store of dictionaries\<close>

text \<open>
  Hyperparameters are nested dictionaries with string keys. A dictionary is an association
  list in insertion order with distinct keys. It is either written in the place that holds
  it (\<open>PDict\<close>: nothing else refers to it) or it is an object of the store, which any number
  of places may refer to (\<open>PRef a\<close>, the object at address \<open>a\<close>); a host function can
  change only the objects of the store. \<open>PObj\<close> is an opaque host
  value that is not a container (a tensor, a cell, a callable): subscripting it by a string,
  assigning to an item of it and unpacking it with \<open>**\<close> raise \<open>TypeError\<close>.
\<close>

datatype 'a pyval =
    PNone
  | PBool bool
  | PInt int
  | PStr string
  | PList "'a pyval list"
  | PDict "(string \<times> 'a pyval) list"
  | PRef nat
  | PObj 'a

type_synonym 'a store = "(string \<times> 'a pyval) list list"

text \<open>
  The interpreter's state is the store together with the state of the host framework.
  \<open>readS\<close> runs a step that reads the store, \<open>writeS\<close> one that changes it.
\<close>

definition readS :: "('a store \<Rightarrow> error + 'b) \<Rightarrow> ('a store \<times> 'h, 'b) fw" where
  "readS f w = (case f (fst w) of Inl e \<Rightarrow> Inl e | Inr x \<Rightarrow> Inr (x, w))"

definition writeS :: "('a store \<Rightarrow> error + 'b \<times> 'a store) \<Rightarrow> ('a store \<times> 'h, 'b) fw" where
  "writeS f w = (case f (fst w) of Inl e \<Rightarrow> Inl e | Inr (x, st) \<Rightarrow> Inr (x, (st, snd w)))"

definition lookup_key :: "(string \<times> 'a pyval) list \<Rightarrow> string \<Rightarrow> error + 'a pyval" where
  "lookup_key d k = (case map_of d k of None \<Rightarrow> Inl (KeyError k) | Some v \<Rightarrow> Inr v)"

text \<open>
  \<open>x[k]\<close> for a string \<open>k\<close>. A reference to no object of the store does not occur in Python;
  the model raises there, so that nothing rests on it.
\<close>

fun getitem :: "'a pyval \<Rightarrow> string \<Rightarrow> 'a store \<Rightarrow> error + 'a pyval" where
  "getitem (PDict d) k st = lookup_key d k"
| "getitem (PRef a) k st =
     (if a < length st then lookup_key (st ! a) k else Inl (HostError ''no such object''))"
| "getitem (PStr s) k st = Inl (TypeError IndicesMustBeIntegers)"
| "getitem (PList xs) k st = Inl (TypeError IndicesMustBeIntegers)"
| "getitem PNone k st = Inl (TypeError NotSubscriptable)"
| "getitem (PBool b) k st = Inl (TypeError NotSubscriptable)"
| "getitem (PInt i) k st = Inl (TypeError NotSubscriptable)"
| "getitem (PObj x) k st = Inl (TypeError NotSubscriptable)"

text \<open>
  \<open>x[k] = v\<close> for a string \<open>k\<close>. An existing key keeps its place, a new key goes to the end.
  Python changes the dictionary in place. For an object of the store the model changes the
  store, so the change shows wherever the object is referred to; for a dictionary written in
  place it returns the changed dictionary, which the caller puts back where it came from.
\<close>

fun setitem :: "'a pyval \<Rightarrow> string \<Rightarrow> 'a pyval \<Rightarrow> 'a store \<Rightarrow> error + 'a pyval \<times> 'a store" where
  "setitem (PDict d) k v st = Inr (PDict (AList.update k v d), st)"
| "setitem (PRef a) k v st =
     (if a < length st then Inr (PRef a, st[a := AList.update k v (st ! a)])
      else Inl (HostError ''no such object''))"
| "setitem (PList xs) k v st = Inl (TypeError IndicesMustBeIntegers)"
| "setitem PNone k v st = Inl (TypeError NoItemAssignment)"
| "setitem (PBool b) k v st = Inl (TypeError NoItemAssignment)"
| "setitem (PInt i) k v st = Inl (TypeError NoItemAssignment)"
| "setitem (PStr s) k v st = Inl (TypeError NoItemAssignment)"
| "setitem (PObj x) k v st = Inl (TypeError NoItemAssignment)"

subsection \<open>Default hyperparameters\<close>

text \<open>
  \<open>RNNDecoderBase.default_hparams()\<close> lives in another module; its result, a dictionary, is
  the parameter \<open>base\<close>.
  \<^verbatim>\<open>
    hparams = RNNDecoderBase.default_hparams()
    hparams["name"] = "basic_rnn_decoder"
    return hparams
  \<close>
\<close>

definition BasicRNNDecoder_default_hparams ::
  "(string \<times> 'a pyval) list \<Rightarrow> (string \<times> 'a pyval) list" where
  "BasicRNNDecoder_default_hparams base =
     (let hparams = base;
          hparams = AList.update ''name'' (PStr ''basic_rnn_decoder'') hparams
      in hparams)"

definition AttentionRNNDecoder_default_hparams ::
  "(string \<times> 'a pyval) list \<Rightarrow> (string \<times> 'a pyval) list" where
  "AttentionRNNDecoder_default_hparams base =
     (let hparams = base;
          hparams = AList.update ''name'' (PStr ''attention_rnn_decoder'') hparams;
          hparams = AList.update ''attention''
            (PDict [
               (''type'', PStr ''LuongAttention''),
               (''kwargs'', PDict [
                  (''num_units'', PInt 512),
                  (''probability_fn'', PStr ''tensorflow.nn.softmax'')]),
               (''attention_layer_size'', PNone),
               (''alignment_history'', PBool False),
               (''output_attention'', PBool True)]) hparams
      in hparams)"

subsection \<open>finalize\<close>

text \<open>
  \<^verbatim>\<open>
    def finalize(self, outputs, final_state, sequence_lengths):
        return outputs, final_state
  \<close>
  The same body in both classes.
\<close>

definition BasicRNNDecoder_finalize :: "'d \<Rightarrow> 'o \<Rightarrow> 's \<Rightarrow> 'n \<Rightarrow> 'o \<times> 's" where
  "BasicRNNDecoder_finalize self outputs final_state sequence_lengths = (outputs, final_state)"

definition AttentionRNNDecoder_finalize :: "'d \<Rightarrow> 'o \<Rightarrow> 's \<Rightarrow> 'n \<Rightarrow> 'o \<times> 's" where
  "AttentionRNNDecoder_finalize self outputs final_state sequence_lengths = (outputs, final_state)"

subsection \<open>Calling a namedtuple class\<close>

text \<open>
  \<open>collections.namedtuple(name, field_names)\<close> makes a tuple class whose \<open>__new__\<close> has one
  parameter per field, in field order and without defaults. A call binds the positional
  arguments to the first fields, then the keyword arguments by name: a keyword that names
  no field, or a field already bound, raises \<open>TypeError\<close>; so do surplus positional
  arguments and fields left unbound. The result lists the values in field order.
  Keywords are bound in the order of the call, and the checks come in the order of
  CPython 3; where a call has several defects, another interpreter may report another of
  them, always as a \<open>TypeError\<close>.
\<close>

fun bind_keywords ::
  "string list \<Rightarrow> (string \<times> 'v) list \<Rightarrow> (string \<times> 'v) list \<Rightarrow> error + (string \<times> 'v) list" where
  "bind_keywords field_names bound [] = Inr bound"
| "bind_keywords field_names bound ((k, v) # kwargs) =
     (if k \<notin> set field_names then Inl (TypeError (UnexpectedKeyword k))
      else if k \<in> set (map fst bound) then Inl (TypeError (MultipleValues k))
      else bind_keywords field_names (bound @ [(k, v)]) kwargs)"

fun collect_fields :: "string list \<Rightarrow> (string \<times> 'v) list \<Rightarrow> error + 'v list" where
  "collect_fields [] bound = Inr []"
| "collect_fields (f # field_names) bound =
     (case map_of bound f of
        None \<Rightarrow> Inl (TypeError (MissingArgument f))
      | Some v \<Rightarrow>
          (case collect_fields field_names bound of
             Inl e \<Rightarrow> Inl e
           | Inr vs \<Rightarrow> Inr (v # vs)))"

definition namedtuple_new ::
  "string list \<Rightarrow> 'v list \<Rightarrow> (string \<times> 'v) list \<Rightarrow> error + 'v list" where
  "namedtuple_new field_names args kwargs =
     (case bind_keywords field_names (zip field_names args) kwargs of
        Inl e \<Rightarrow> Inl e
      | Inr bound \<Rightarrow>
          if length field_names < length args then Inl (TypeError TooManyPositional)
          else collect_fields field_names bound)"

subsection \<open>The output tuples\<close>

text \<open>
  \<^verbatim>\<open>
    class BasicRNNDecoderOutput(
            collections.namedtuple("BasicRNNDecoderOutput",
                                   ("rnn_output", "sample_id"))):
    class AttentionRNNDecoderOutput(
            collections.namedtuple(
                "AttentionRNNDecoderOutput",
                ["rnn_output", "sample_id", "cell_output",
                 "attention_scores", "attention_context"])):
  \<close>
  The components of one tuple have different types, so each class is a record. The second
  record extends the first only to share the names of the first two fields, which are the same
  in both classes and in the same positions; the Python classes are unrelated.
\<close>

record ('a, 'b) BasicRNNDecoderOutput =
  rnn_output :: 'a
  sample_id :: 'b

record ('a, 'b, 'c, 'd, 'e) AttentionRNNDecoderOutput = "('a, 'b) BasicRNNDecoderOutput" +
  cell_output :: 'c
  attention_scores :: 'd
  attention_context :: 'e

definition BasicRNNDecoderOutput_fields :: "string list" where
  "BasicRNNDecoderOutput_fields = [''rnn_output'', ''sample_id'']"

definition AttentionRNNDecoderOutput_fields :: "string list" where
  "AttentionRNNDecoderOutput_fields =
     [''rnn_output'', ''sample_id'', ''cell_output'', ''attention_scores'', ''attention_context'']"

text \<open>
  A call of the class with arguments of one type. \<open>namedtuple_new\<close> returns one value per
  field (lemma \<open>namedtuple_new_length\<close>), so the positions read here exist.
\<close>

definition BasicRNNDecoderOutput_new ::
  "'v list \<Rightarrow> (string \<times> 'v) list \<Rightarrow> error + ('v, 'v) BasicRNNDecoderOutput" where
  "BasicRNNDecoderOutput_new args kwargs =
     (case namedtuple_new BasicRNNDecoderOutput_fields args kwargs of
        Inl e \<Rightarrow> Inl e
      | Inr vs \<Rightarrow> Inr \<lparr>rnn_output = vs ! 0, sample_id = vs ! 1\<rparr>)"

definition AttentionRNNDecoderOutput_new ::
  "'v list \<Rightarrow> (string \<times> 'v) list \<Rightarrow> error + ('v, 'v, 'v, 'v, 'v) AttentionRNNDecoderOutput" where
  "AttentionRNNDecoderOutput_new args kwargs =
     (case namedtuple_new AttentionRNNDecoderOutput_fields args kwargs of
        Inl e \<Rightarrow> Inl e
      | Inr vs \<Rightarrow>
          Inr \<lparr>rnn_output = vs ! 0, sample_id = vs ! 1, cell_output = vs ! 2,
               attention_scores = vs ! 3, attention_context = vs ! 4\<rparr>)"

subsection \<open>output_dtype\<close>

datatype dtype = float32 | int32

text \<open>
  \<^verbatim>\<open>
    @property
    def output_dtype(self):
        return BasicRNNDecoderOutput(
            rnn_output=dtypes.float32, sample_id=dtypes.int32)
  \<close>
\<close>

definition BasicRNNDecoder_output_dtype :: "'d \<Rightarrow> error + (dtype, dtype) BasicRNNDecoderOutput" where
  "BasicRNNDecoder_output_dtype self =
     BasicRNNDecoderOutput_new [] [(''rnn_output'', float32), (''sample_id'', int32)]"

text \<open>
  \<^verbatim>\<open>
    @property
    def output_dtype(self):
        return AttentionRNNDecoderOutput(
            logits=dtypes.float32,
            predicted_ids=dtypes.int32,
            cell_output=dtypes.float32,
            attention_scores=dtypes.float32,
            attention_context=dtypes.float32)
  \<close>
\<close>

definition AttentionRNNDecoder_output_dtype ::
  "'d \<Rightarrow> error + (dtype, dtype, dtype, dtype, dtype) AttentionRNNDecoderOutput" where
  "AttentionRNNDecoder_output_dtype self =
     AttentionRNNDecoderOutput_new []
       [(''logits'', float32), (''predicted_ids'', int32), (''cell_output'', float32),
        (''attention_scores'', float32), (''attention_context'', float32)]"

subsection \<open>The decoder object and the host's objects\<close>

text \<open>
  The attributes of \<open>self\<close> that this module reads or writes: \<open>self._cell\<close>,
  \<open>self._helper\<close>, \<open>self._initial_state\<close> and \<open>self._vocab_size\<close>. The base class sets them.
\<close>

record ('cell, 'helper, 'state) RNNDecoder =
  self_cell :: 'cell
  self_helper :: 'helper
  self_initial_state :: 'state
  self_vocab_size :: int

text \<open>
  The host's helper, with the three methods the decoders call. By the host's contract
  \<open>initialize()\<close> returns the tuple \<open>(finished, first_inputs)\<close> and \<open>next_inputs(...)\<close> the
  tuple \<open>(finished, next_inputs, next_state)\<close>. \<open>sample\<close> and \<open>next_inputs\<close> take the state
  they are given, which in the attention decoder are two different objects.
\<close>

record ('w, 't, 'l, 's1, 's2, 'sid, 'f, 'i) Helper =
  helper_initialize :: "('w, 'f \<times> 'i) fw"
  helper_sample :: "'t \<Rightarrow> 'l \<Rightarrow> 's1 \<Rightarrow> ('w, 'sid) fw"
  helper_next_inputs :: "'t \<Rightarrow> 'l \<Rightarrow> 's2 \<Rightarrow> 'sid \<Rightarrow> ('w, 'f \<times> 'i \<times> 's2) fw"

text \<open>
  The state of the host's \<open>AttentionWrapper\<close> cell, with the three fields
  \<open>AttentionRNNDecoder.step\<close> reads; the host's other fields are the record's extension,
  which \<open>step\<close> passes on untouched.
\<close>

record ('cs, 'att, 'al) AttentionWrapperState =
  cell_state :: 'cs
  attention :: 'att
  alignments :: 'al

text \<open>
  A Python sequence whose elements have different types: the tuple of its elements, tagged
  with the kind of sequence.
\<close>

datatype 'a pyseq = PyTuple 'a | PyList 'a


subsection \<open>output_size\<close>

text \<open>
  The values of the size tuples: an integer, the host's \<open>TensorShape\<close> of a list of
  dimensions, or a size read from a host object.
\<close>

datatype 'z size = IntSize int | TensorShape "nat list" | HostSize 'z

text \<open>
  \<^verbatim>\<open>
    @property
    def output_size(self):
        return BasicRNNDecoderOutput(
            rnn_output=self._vocab_size,
            sample_id=tensor_shape.TensorShape([]))
  \<close>
\<close>

definition BasicRNNDecoder_output_size ::
  "('c, 'h, 's) RNNDecoder \<Rightarrow> error + ('z size, 'z size) BasicRNNDecoderOutput" where
  "BasicRNNDecoder_output_size self =
     BasicRNNDecoderOutput_new []
       [(''rnn_output'', IntSize (self_vocab_size self)), (''sample_id'', TensorShape [])]"

text \<open>
  \<^verbatim>\<open>
    @property
    def output_size(self):
        statesize = self.cell.state_size
        return AttentionRNNDecoderOutput(
            rnn_output=self._vocab_size,
            sample_id=tensor_shape.TensorShape([]),
            cell_output=self.cell._cell.output_size,
            attention_scores=statesize.alignments,
            attention_context=statesize.attention)
  \<close>
  The property \<open>cell\<close> of the base class and the host's attributes \<open>state_size\<close>, \<open>_cell\<close> and
  \<open>output_size\<close> are the first four parameters.
\<close>

definition AttentionRNNDecoder_output_size ::
  "(('c, 'h, 's) RNNDecoder \<Rightarrow> ('w, 'k) fw) \<Rightarrow>
   ('k \<Rightarrow> ('w, ('z, 'z, 'z, 'm) AttentionWrapperState_scheme) fw) \<Rightarrow>
   ('k \<Rightarrow> ('w, 'k2) fw) \<Rightarrow>
   ('k2 \<Rightarrow> ('w, 'z) fw) \<Rightarrow>
   ('c, 'h, 's) RNNDecoder \<Rightarrow>
   ('w, ('z size, 'z size, 'z size, 'z size, 'z size) AttentionRNNDecoderOutput) fw" where
  "AttentionRNNDecoder_output_size cell_property state_size_of wrapped_cell_of output_size_of
     self =
   bindE (cell_property self) (\<lambda>c.
   bindE (state_size_of c) (\<lambda>statesize.
   bindE (cell_property self) (\<lambda>c.
   bindE (wrapped_cell_of c) (\<lambda>wrapped.
   bindE (output_size_of wrapped) (\<lambda>wrapped_output_size.
   liftE (AttentionRNNDecoderOutput_new []
     [(''rnn_output'', IntSize (self_vocab_size self)),
      (''sample_id'', TensorShape []),
      (''cell_output'', HostSize wrapped_output_size),
      (''attention_scores'', HostSize (alignments statesize)),
      (''attention_context'', HostSize (attention statesize))]))))))"

subsection \<open>The constructor of AttentionRNNDecoder\<close>

text \<open>\<open>**x\<close> in a call: \<open>x\<close> must be a mapping; the call gets its entries as they are then.\<close>

fun unpack_mapping :: "'a pyval \<Rightarrow> 'a store \<Rightarrow> error + (string \<times> 'a pyval) list" where
  "unpack_mapping (PDict d) st = Inr d"
| "unpack_mapping (PRef a) st =
     (if a < length st then Inr (st ! a) else Inl (HostError ''no such object''))"
| "unpack_mapping PNone st = Inl (TypeError NotAMapping)"
| "unpack_mapping (PBool b) st = Inl (TypeError NotAMapping)"
| "unpack_mapping (PInt i) st = Inl (TypeError NotAMapping)"
| "unpack_mapping (PStr s) st = Inl (TypeError NotAMapping)"
| "unpack_mapping (PList xs) st = Inl (TypeError NotAMapping)"
| "unpack_mapping (PObj x) st = Inl (TypeError NotAMapping)"

text \<open>
  \<^verbatim>\<open>
    def __init__(self, n_hidden, attention_keys, attention_values,
                 attention_values_length, reverse_scores_lengths=None,
                 cell_input_fn=None, cell=None, embedding=None,
                 vocab_size=None, hparams=None):
        RNNDecoderBase.__init__(self, cell, embedding, vocab_size, hparams)

        att_params = hparams['attention']
        attention_class = hparams['attention']['class'] #LuongAttention
        attention_kwargs = hparams['attention']['params']
        attention_kwargs['num_units'] = n_hidden
        attention_kwargs['memory_sequence_length'] = attention_values_length
        attention_kwargs['memory'] = attention_keys
        attention_modules = ['txtgen.custom', 'tensorflow.contrib.seq2seq']
        attention_mechanism = get_instance(attention_class, attention_kwargs, attention_modules)

        wrapper_params = hparams['attention']['wrapper_params']
        attn_cell = AttentionWrapper(self._cell, attention_mechanism, **wrapper_params)
        self._cell = attn_cell
  \<close>
  \<open>RNNDecoderBase.__init__\<close>, \<open>get_instance\<close> and \<open>AttentionWrapper\<close> are defined outside this
  module and are the first three parameters; they run in the interpreter's state and may
  change the store. The three assignments change the dictionary
  \<open>hparams['attention']['params']\<close> of the caller in place. Where that dictionary is an
  object of the store, every place that refers to it sees the change, also
  \<open>hparams['attention']['wrapper_params']\<close> when it is the same object. Where it is written in
  place, the two steps after the assignments put the changed dictionary back into
  \<open>hparams['attention']\<close> and that into \<open>hparams\<close>; for an object of the store they store the
  reference that is there already. The constructor's result is the decoder together with
  \<open>hparams\<close> as the constructor leaves it.
\<close>

definition AttentionRNNDecoder_init ::
  "('ca \<Rightarrow> 'ea \<Rightarrow> 'va \<Rightarrow> 'a pyval \<Rightarrow> ('a store \<times> 'w, ('c, 'h, 's) RNNDecoder) fw) \<Rightarrow>
   ('a pyval \<Rightarrow> 'a pyval \<Rightarrow> string list \<Rightarrow> ('a store \<times> 'w, 'm) fw) \<Rightarrow>
   ('c \<Rightarrow> 'm \<Rightarrow> (string \<times> 'a pyval) list \<Rightarrow> ('a store \<times> 'w, 'c2) fw) \<Rightarrow>
   'a pyval \<Rightarrow> 'a pyval \<Rightarrow> 'av \<Rightarrow> 'a pyval \<Rightarrow> 'rs \<Rightarrow> 'cf \<Rightarrow> 'ca \<Rightarrow> 'ea \<Rightarrow> 'va \<Rightarrow> 'a pyval \<Rightarrow>
   ('a store \<times> 'w, ('c2, 'h, 's) RNNDecoder \<times> 'a pyval) fw" where
  "AttentionRNNDecoder_init RNNDecoderBase_init get_instance AttentionWrapper
     n_hidden attention_keys attention_values attention_values_length
     reverse_scores_lengths cell_input_fn cell embedding vocab_size hparams =
   bindE (RNNDecoderBase_init cell embedding vocab_size hparams) (\<lambda>self.
   bindE (readS (getitem hparams ''attention'')) (\<lambda>att_params.
   bindE (readS (getitem hparams ''attention'')) (\<lambda>att.
   bindE (readS (getitem att ''class'')) (\<lambda>attention_class.
   bindE (readS (getitem hparams ''attention'')) (\<lambda>att.
   bindE (readS (getitem att ''params'')) (\<lambda>attention_kwargs.
   bindE (writeS (setitem attention_kwargs ''num_units'' n_hidden)) (\<lambda>attention_kwargs.
   bindE (writeS (setitem attention_kwargs ''memory_sequence_length'' attention_values_length))
     (\<lambda>attention_kwargs.
   bindE (writeS (setitem attention_kwargs ''memory'' attention_keys)) (\<lambda>attention_kwargs.
   bindE (writeS (setitem att ''params'' attention_kwargs)) (\<lambda>att.
   bindE (writeS (setitem hparams ''attention'' att)) (\<lambda>hparams.
   let attention_modules = [''txtgen.custom'', ''tensorflow.contrib.seq2seq''] in
   bindE (get_instance attention_class attention_kwargs attention_modules)
     (\<lambda>attention_mechanism.
   bindE (readS (getitem hparams ''attention'')) (\<lambda>att.
   bindE (readS (getitem att ''wrapper_params'')) (\<lambda>wrapper_params.
   bindE (readS (unpack_mapping wrapper_params)) (\<lambda>wrapper_kwargs.
   bindE (AttentionWrapper (self_cell self) attention_mechanism wrapper_kwargs) (\<lambda>attn_cell.
   returnE
     (\<lparr>self_cell = attn_cell, self_helper = self_helper self,
       self_initial_state = self_initial_state self, self_vocab_size = self_vocab_size self\<rparr>,
      hparams)))))))))))))))))"

subsection \<open>initialize\<close>

text \<open>
  \<^verbatim>\<open>
    def initialize(self, name=None):
        return self._helper.initialize() + (self._initial_state,)
  \<close>
  The helper's pair and a one-element tuple, concatenated: a tuple of three.
\<close>

definition BasicRNNDecoder_initialize ::
  "('c, ('w, 't, 'l, 's1, 's2, 'sid, 'f, 'i) Helper, 's) RNNDecoder \<Rightarrow> 'n \<Rightarrow>
   ('w, ('f \<times> 'i \<times> 's) pyseq) fw" where
  "BasicRNNDecoder_initialize self name =
     bindE (helper_initialize (self_helper self)) (\<lambda>(finished, first_inputs).
     returnE (PyTuple (finished, first_inputs, self_initial_state self)))"

text \<open>
  \<^verbatim>\<open>
    def initialize(self, name=None):
        helper_init = self._helper.initialize()
        return [helper_init[0], helper_init[1], self._initial_state]
  \<close>
  A list of three.
\<close>

definition AttentionRNNDecoder_initialize ::
  "('c, ('w, 't, 'l, 's1, 's2, 'sid, 'f, 'i) Helper, 's) RNNDecoder \<Rightarrow> 'n \<Rightarrow>
   ('w, ('f \<times> 'i \<times> 's) pyseq) fw" where
  "AttentionRNNDecoder_initialize self name =
     bindE (helper_initialize (self_helper self)) (\<lambda>helper_init.
     returnE (PyList (fst helper_init, snd helper_init, self_initial_state self)))"

subsection \<open>step\<close>

text \<open>
  \<open>tf.contrib.layers.fully_connected\<close> is the first parameter of both models.
  \<^verbatim>\<open>
    def step(self, time, inputs, state, name=None):
        cell_outputs, cell_state = self._cell(inputs, state)
        logits = tf.contrib.layers.fully_connected(
            inputs=cell_outputs, num_outputs=self._vocab_size)
        sample_ids = self._helper.sample(
            time=time, outputs=logits, state=cell_state)
        (finished, next_inputs, next_state) = self._helper.next_inputs(
            time=time,
            outputs=logits,
            state=cell_state,
            sample_ids=sample_ids)
        outputs = BasicRNNDecoderOutput(logits, sample_ids)
        return (outputs, next_state, next_inputs, finished)
  \<close>
  A local variable that has the name of a record field carries a prime in the model.
\<close>

definition BasicRNNDecoder_step ::
  "('o \<Rightarrow> int \<Rightarrow> ('w, 'l) fw) \<Rightarrow>
   ('i \<Rightarrow> 's \<Rightarrow> ('w, 'o \<times> 's) fw, ('w, 't, 'l, 's, 's, 'sid, 'f, 'i) Helper, 's0) RNNDecoder \<Rightarrow>
   't \<Rightarrow> 'i \<Rightarrow> 's \<Rightarrow> 'n \<Rightarrow>
   ('w, ('l, 'sid) BasicRNNDecoderOutput \<times> 's \<times> 'i \<times> 'f) fw" where
  "BasicRNNDecoder_step fully_connected self time inputs state name =
     bindE (self_cell self inputs state) (\<lambda>(cell_outputs, cell_state').
     bindE (fully_connected cell_outputs (self_vocab_size self)) (\<lambda>logits.
     bindE (helper_sample (self_helper self) time logits cell_state') (\<lambda>sample_ids.
     bindE (helper_next_inputs (self_helper self) time logits cell_state' sample_ids)
       (\<lambda>(finished, next_inputs, next_state).
     let outputs = \<lparr>rnn_output = logits, sample_id = sample_ids\<rparr> in
     returnE (outputs, next_state, next_inputs, finished)))))"

text \<open>
  \<^verbatim>\<open>
    def step(self, time, inputs, state, name=None):
        cell_outputs, cell_state = self._cell(inputs, state)
        wrapper_outputs, wrapper_state = self._cell(inputs, state)

        #cell_state is AttentionWrapperState
        cell_state = wrapper_state.cell_state
        attention_scores = wrapper_state.alignments
        attention_context = wrapper_state.attention

        logits = tf.contrib.layers.fully_connected(
            inputs=cell_outputs, num_outputs=self._vocab_size)
        sample_ids = self._helper.sample(
            time=time, outputs=logits, state=cell_state)
        (finished, next_inputs, next_state) = self._helper.next_inputs(
            time=time,
            outputs=logits,
            state=wrapper_state,
            sample_ids=sample_ids)
        # there should be some problem
        outputs = AttentionRNNDecoderOutput(
            logits, sample_ids, wrapper_outputs,
            attention_scores, attention_context)
        return (outputs, next_state, next_inputs, finished)
  \<close>
\<close>

definition AttentionRNNDecoder_step ::
  "('o \<Rightarrow> int \<Rightarrow> ('w, 'l) fw) \<Rightarrow>
   ('i \<Rightarrow> 's \<Rightarrow> ('w, 'o \<times> ('cs, 'att, 'al, 'z) AttentionWrapperState_scheme) fw,
    ('w, 't, 'l, 'cs, ('cs, 'att, 'al, 'z) AttentionWrapperState_scheme, 'sid, 'f, 'i) Helper,
    's0) RNNDecoder \<Rightarrow>
   't \<Rightarrow> 'i \<Rightarrow> 's \<Rightarrow> 'n \<Rightarrow>
   ('w, ('l, 'sid, 'o, 'al, 'att) AttentionRNNDecoderOutput
        \<times> ('cs, 'att, 'al, 'z) AttentionWrapperState_scheme \<times> 'i \<times> 'f) fw" where
  "AttentionRNNDecoder_step fully_connected self time inputs state name =
     bindE (self_cell self inputs state) (\<lambda>(cell_outputs, cell_state').
     bindE (self_cell self inputs state) (\<lambda>(wrapper_outputs, wrapper_state).
     let cell_state' = cell_state wrapper_state;
         attention_scores' = alignments wrapper_state;
         attention_context' = attention wrapper_state in
     bindE (fully_connected cell_outputs (self_vocab_size self)) (\<lambda>logits.
     bindE (helper_sample (self_helper self) time logits cell_state') (\<lambda>sample_ids.
     bindE (helper_next_inputs (self_helper self) time logits wrapper_state sample_ids)
       (\<lambda>(finished, next_inputs, next_state).
     let outputs = \<lparr>rnn_output = logits, sample_id = sample_ids,
                     cell_output = wrapper_outputs, attention_scores = attention_scores',
                     attention_context = attention_context'\<rparr> in
     returnE (outputs, next_state, next_inputs, finished))))))"

subsection \<open>step with one call of the cell\<close>

text \<open>
  The refactored \<open>AttentionRNNDecoder.step\<close> that the specification compares the source
  with: it calls the cell once and uses the results of that call for the logits and for the
  fields \<open>cell_output\<close>, \<open>attention_scores\<close> and \<open>attention_context\<close>. It is not in the
  source.
\<close>

definition AttentionRNNDecoder_step_single_call ::
  "('o \<Rightarrow> int \<Rightarrow> ('w, 'l) fw) \<Rightarrow>
   ('i \<Rightarrow> 's \<Rightarrow> ('w, 'o \<times> ('cs, 'att, 'al, 'z) AttentionWrapperState_scheme) fw,
    ('w, 't, 'l, 'cs, ('cs, 'att, 'al, 'z) AttentionWrapperState_scheme, 'sid, 'f, 'i) Helper,
    's0) RNNDecoder \<Rightarrow>
   't \<Rightarrow> 'i \<Rightarrow> 's \<Rightarrow> 'n \<Rightarrow>
   ('w, ('l, 'sid, 'o, 'al, 'att) AttentionRNNDecoderOutput
        \<times> ('cs, 'att, 'al, 'z) AttentionWrapperState_scheme \<times> 'i \<times> 'f) fw" where
  "AttentionRNNDecoder_step_single_call fully_connected self time inputs state name =
     bindE (self_cell self inputs state) (\<lambda>(cell_outputs, wrapper_state).
     let cell_state' = cell_state wrapper_state;
         attention_scores' = alignments wrapper_state;
         attention_context' = attention wrapper_state in
     bindE (fully_connected cell_outputs (self_vocab_size self)) (\<lambda>logits.
     bindE (helper_sample (self_helper self) time logits cell_state') (\<lambda>sample_ids.
     bindE (helper_next_inputs (self_helper self) time logits wrapper_state sample_ids)
       (\<lambda>(finished, next_inputs, next_state).
     let outputs = \<lparr>rnn_output = logits, sample_id = sample_ids,
                     cell_output = cell_outputs, attention_scores = attention_scores',
                     attention_context = attention_context'\<rparr> in
     returnE (outputs, next_state, next_inputs, finished)))))"

text \<open>
  What \<open>AttentionRNNDecoder.step\<close> does after its calls of the cell (the source from
  \<open>cell_state = wrapper_state.cell_state\<close> to the end), as a function of the output that
  goes into the logits and of the output and state that go into the record and the helper.
  It serves to say where the calls of the cell stand in \<open>step\<close>.
\<close>

definition AttentionRNNDecoder_step_after_cell ::
  "('o \<Rightarrow> int \<Rightarrow> ('w, 'l) fw) \<Rightarrow>
   ('c, ('w, 't, 'l, 'cs, ('cs, 'att, 'al, 'z) AttentionWrapperState_scheme, 'sid, 'f, 'i) Helper,
    's0) RNNDecoder \<Rightarrow>
   't \<Rightarrow> 'o \<Rightarrow> 'o2 \<Rightarrow> ('cs, 'att, 'al, 'z) AttentionWrapperState_scheme \<Rightarrow>
   ('w, ('l, 'sid, 'o2, 'al, 'att) AttentionRNNDecoderOutput
        \<times> ('cs, 'att, 'al, 'z) AttentionWrapperState_scheme \<times> 'i \<times> 'f) fw" where
  "AttentionRNNDecoder_step_after_cell fully_connected self time
       cell_outputs wrapper_outputs wrapper_state =
     (let cell_state' = cell_state wrapper_state;
          attention_scores' = alignments wrapper_state;
          attention_context' = attention wrapper_state in
      bindE (fully_connected cell_outputs (self_vocab_size self)) (\<lambda>logits.
      bindE (helper_sample (self_helper self) time logits cell_state') (\<lambda>sample_ids.
      bindE (helper_next_inputs (self_helper self) time logits wrapper_state sample_ids)
        (\<lambda>(finished, next_inputs, next_state).
      let outputs = \<lparr>rnn_output = logits, sample_id = sample_ids,
                      cell_output = wrapper_outputs, attention_scores = attention_scores',
                      attention_context = attention_context'\<rparr> in
      returnE (outputs, next_state, next_inputs, finished)))))"

text \<open>
  A cell that is a function of its arguments: what it returns or raises depends on
  \<open>(inputs, state)\<close> alone, and calling it leaves the host as it was.
\<close>

definition function_cell :: "('i \<Rightarrow> 's \<Rightarrow> error + 'r) \<Rightarrow> 'i \<Rightarrow> 's \<Rightarrow> ('w, 'r) fw" where
  "function_cell f inputs state = liftE (f inputs state)"

subsection \<open>The state machine of the decode loop\<close>





subsection \<open>A small host\<close>

text \<open>
  Concrete host objects on which the models run. The host state counts the host calls made
  so far, except that the attention cell is a function of its arguments.
\<close>

definition example_fully_connected :: "int \<Rightarrow> int \<Rightarrow> (nat, int) fw" where
  "example_fully_connected cell_outputs num_outputs w = Inr (cell_outputs * num_outputs, Suc w)"

definition example_helper :: "(nat, nat, int, int, 's2, int, bool, int) Helper" where
  "example_helper =
     \<lparr>helper_initialize = (\<lambda>w. Inr ((False, 0), Suc w)),
      helper_sample = (\<lambda>time logits state w. Inr (logits + state, Suc w)),
      helper_next_inputs =
        (\<lambda>time logits state sample_ids w. Inr ((3 \<le> time, sample_ids, state), Suc w))\<rparr>"

definition example_cell :: "int \<Rightarrow> int \<Rightarrow> (nat, int \<times> int) fw" where
  "example_cell inputs state w = Inr ((inputs + state, state + 1), Suc w)"

definition example_basic_decoder ::
  "(int \<Rightarrow> int \<Rightarrow> (nat, int \<times> int) fw, (nat, nat, int, int, int, int, bool, int) Helper, int)
     RNNDecoder" where
  "example_basic_decoder =
     \<lparr>self_cell = example_cell, self_helper = example_helper,
      self_initial_state = 0, self_vocab_size = 5\<rparr>"

definition example_attention_f ::
  "int \<Rightarrow> (int, int, int) AttentionWrapperState \<Rightarrow>
   error + int \<times> (int, int, int) AttentionWrapperState" where
  "example_attention_f inputs state =
     Inr (inputs + cell_state state,
          \<lparr>cell_state = cell_state state + 1, attention = inputs, alignments = 2 * inputs\<rparr>)"

definition example_attention_decoder ::
  "(int \<Rightarrow> (int, int, int) AttentionWrapperState \<Rightarrow>
      (nat, int \<times> (int, int, int) AttentionWrapperState) fw,
    (nat, nat, int, int, (int, int, int) AttentionWrapperState, int, bool, int) Helper,
    (int, int, int) AttentionWrapperState) RNNDecoder" where
  "example_attention_decoder =
     \<lparr>self_cell = function_cell example_attention_f, self_helper = example_helper,
      self_initial_state = \<lparr>cell_state = 0, attention = 0, alignments = 0\<rparr>,
      self_vocab_size = 5\<rparr>"

text \<open>A decoder whose cell reads the host state: its output is the number of calls so far.\<close>

definition example_stateful_decoder ::
  "(int \<Rightarrow> (int, int, int) AttentionWrapperState \<Rightarrow>
      (nat, int \<times> (int, int, int) AttentionWrapperState) fw,
    (nat, nat, int, int, (int, int, int) AttentionWrapperState, int, bool, int) Helper,
    (int, int, int) AttentionWrapperState) RNNDecoder" where
  "example_stateful_decoder =
     \<lparr>self_cell = (\<lambda>inputs state w. Inr ((inputs + int w, state), Suc w)),
      self_helper = example_helper,
      self_initial_state = \<lparr>cell_state = 0, attention = 0, alignments = 0\<rparr>,
      self_vocab_size = 5\<rparr>"

text \<open>
  A host for the constructor. The mechanism it makes records the class and the keyword
  arguments as they stand in the store when it is made; the wrapper takes the keywords of
  the host's \<open>AttentionWrapper\<close> and raises on any other.
\<close>

definition example_RNNDecoderBase_init ::
  "unit \<Rightarrow> unit \<Rightarrow> int \<Rightarrow> unit pyval \<Rightarrow>
   (unit store \<times> nat, (string, unit, unit) RNNDecoder) fw" where
  "example_RNNDecoderBase_init cell embedding vocab_size hparams w =
     Inr (\<lparr>self_cell = ''GRUCell'', self_helper = (), self_initial_state = (),
           self_vocab_size = vocab_size\<rparr>, (fst w, Suc (snd w)))"

definition example_get_instance ::
  "unit pyval \<Rightarrow> unit pyval \<Rightarrow> string list \<Rightarrow>
   (unit store \<times> nat, unit pyval \<times> (string \<times> unit pyval) list) fw" where
  "example_get_instance class_name kwargs modules w =
     (case unpack_mapping kwargs (fst w) of
        Inl e \<Rightarrow> Inl e
      | Inr d \<Rightarrow> Inr ((class_name, d), (fst w, Suc (snd w))))"

definition example_AttentionWrapper ::
  "string \<Rightarrow> unit pyval \<times> (string \<times> unit pyval) list \<Rightarrow> (string \<times> unit pyval) list \<Rightarrow>
   (unit store \<times> nat,
    string \<times> (unit pyval \<times> (string \<times> unit pyval) list) \<times> (string \<times> unit pyval) list) fw" where
  "example_AttentionWrapper cell attention_mechanism kwargs w =
     (case filter (\<lambda>k. k \<notin> set [''attention_layer_size'', ''alignment_history'',
                                  ''cell_input_fn'', ''output_attention'',
                                  ''initial_cell_state'', ''name'']) (map fst kwargs) of
        [] \<Rightarrow> Inr ((cell, attention_mechanism, kwargs), (fst w, Suc (snd w)))
      | k # ks \<Rightarrow> Inl (TypeError (UnexpectedKeyword k)))"

text \<open>
  Hyperparameters whose \<open>'params'\<close> and \<open>'wrapper_params'\<close> are two objects of the store, and
  hyperparameters in which they are one object.
\<close>

definition example_hparams :: "unit pyval" where
  "example_hparams =
     PDict [(''attention'',
       PDict [(''class'', PStr ''LuongAttention''),
              (''params'', PRef 0),
              (''wrapper_params'', PRef 1)])]"

definition example_shared_hparams :: "unit pyval" where
  "example_shared_hparams =
     PDict [(''attention'',
       PDict [(''class'', PStr ''LuongAttention''),
              (''params'', PRef 1),
              (''wrapper_params'', PRef 1)])]"

definition example_store :: "unit store" where
  "example_store = [[(''num_units'', PInt 512)], [(''output_attention'', PBool True)]]"


section \<open>Properties\<close>

subsection \<open>Auxiliary facts\<close>

lemma collect_fields_length:
  "collect_fields field_names bound = Inr vs \<Longrightarrow> length vs = length field_names"
  by (induction field_names arbitrary: vs) (auto split: option.splits sum.splits)

lemma namedtuple_new_length:
  "namedtuple_new field_names args kwargs = Inr vs \<Longrightarrow> length vs = length field_names"
  by (auto simp: namedtuple_new_def collect_fields_length split: sum.splits if_splits)



lemma update_same: "map_of d k = Some v \<Longrightarrow> AList.update k v d = d"
  by (induction d) (auto split: if_splits)

lemma lookup_key_Inr: "lookup_key d k = Inr v \<longleftrightarrow> map_of d k = Some v"
  by (simp add: lookup_key_def split: option.splits)

lemma lookup_key_update:
  "lookup_key (AList.update k v d) k' = (if k' = k then Inr v else lookup_key d k')"
  by (simp add: lookup_key_def update_conv')

lemma assignments_reach_get_instance:
  assumes att: "getitem hparams ''attention'' st = Inr att"
    and kw0: "getitem att ''params'' st = Inr kw0"
    and s1: "setitem kw0 ''num_units'' n_hidden st = Inr (kw1, st1)"
    and s2: "setitem kw1 ''memory_sequence_length'' attention_values_length st1 = Inr (kw2, st2)"
    and s3: "setitem kw2 ''memory'' attention_keys st2 = Inr (kw, st3)"
    and s4: "setitem att ''params'' kw st3 = Inr (att', st4)"
    and s5: "setitem hparams ''attention'' att' st4 = Inr (hp', st5)"
  shows "getitem kw ''num_units'' st5 = Inr n_hidden
       \<and> getitem kw ''memory_sequence_length'' st5 = Inr attention_values_length
       \<and> getitem kw ''memory'' st5 = Inr attention_keys"
proof (cases kw0)
  case (PDict p)
  with s1 s2 s3 show ?thesis by (auto simp: lookup_key_update)
next
  case (PRef a)
  with s1 s2 s3 have a: "a < length st" and kw: "kw = PRef a"
    and st3: "st3 = st[a := AList.update ''memory'' attention_keys
        (AList.update ''memory_sequence_length'' attention_values_length
          (AList.update ''num_units'' n_hidden (st ! a)))]"
    by (auto split: if_splits)
  let ?d = "AList.update ''memory'' attention_keys
        (AList.update ''memory_sequence_length'' attention_values_length
          (AList.update ''num_units'' n_hidden (st ! a)))"
  have st3a: "st3 ! a = ?d" using a st3 by simp
  have st4a: "st4 ! a = ?d \<and> length st4 = length st"
  proof (cases att)
    case (PDict ad)
    with s4 st3a st3 show ?thesis by auto
  next
    case (PRef b)
    show ?thesis
    proof (cases "b = a")
      case True
      with kw0 \<open>att = PRef b\<close> \<open>kw0 = PRef a\<close> a have "map_of (st ! a) ''params'' = Some (PRef a)"
        by (simp add: lookup_key_Inr)
      then have "map_of ?d ''params'' = Some (PRef a)" by (simp add: update_conv')
      then have "AList.update ''params'' (PRef a) ?d = ?d" by (rule update_same)
      with s4 True \<open>att = PRef b\<close> kw st3a st3 a show ?thesis by (auto split: if_splits)
    next
      case False
      with s4 \<open>att = PRef b\<close> st3a st3 show ?thesis by (auto split: if_splits)
    qed
  qed (use s4 in auto)
  have att': "att' = att \<or> (\<exists>ad. att = PDict ad \<and> att' = PDict (AList.update ''params'' kw ad))"
    using s4 by (cases att) (auto split: if_splits)
  have att'eq: "att' = att"
  proof -
    { fix ad assume ad: "att = PDict ad" "att' = PDict (AList.update ''params'' kw ad)"
      with kw0 \<open>kw0 = PRef a\<close> have "map_of ad ''params'' = Some (PRef a)"
        by (simp add: lookup_key_Inr)
      then have "AList.update ''params'' (PRef a) ad = ad" by (rule update_same)
      with ad kw have "att' = att" by simp }
    with att' show ?thesis by blast
  qed
  have st5a: "st5 ! a = ?d \<and> a < length st5"
  proof (cases hparams)
    case (PDict hd)
    with s5 st4a a show ?thesis by auto
  next
    case (PRef h)
    show ?thesis
    proof (cases "h = a")
      case True
      with att \<open>hparams = PRef h\<close> a have "map_of (st ! a) ''attention'' = Some att"
        by (simp add: lookup_key_Inr)
      then have "map_of ?d ''attention'' = Some att" by (simp add: update_conv')
      then have "AList.update ''attention'' att ?d = ?d" by (rule update_same)
      with s5 True \<open>hparams = PRef h\<close> att'eq st4a a show ?thesis by (auto split: if_splits)
    next
      case False
      with s5 \<open>hparams = PRef h\<close> st4a a show ?thesis by (auto split: if_splits)
    qed
  qed (use s5 in auto)
  with kw show ?thesis by (simp add: lookup_key_update)
qed (use s1 in auto)

lemma liftE_Inr: "liftE (Inr x) = returnE x"
  by (rule ext) (simp add: liftE_def returnE_def)






text \<open>
  Without a cell that is a function of its arguments the source's \<open>step\<close> and the one with
  a single call differ: on the cell that returns the number of calls so far, the field
  \<open>cell_output\<close> and the host state they leave are not the same.
\<close>

lemma step_differs_on_stateful_cell:
  "AttentionRNNDecoder_step example_fully_connected example_stateful_decoder (3::nat) 2
         \<lparr>cell_state = 10, attention = 0, alignments = 0\<rparr> () 0
   = Inr ((\<lparr>rnn_output = 10, sample_id = 20, cell_output = 3,
            attention_scores = 0, attention_context = 0\<rparr>,
           \<lparr>cell_state = 10, attention = 0, alignments = 0\<rparr>, 20, True), 5)
   \<and> AttentionRNNDecoder_step_single_call example_fully_connected example_stateful_decoder
         (3::nat) 2 \<lparr>cell_state = 10, attention = 0, alignments = 0\<rparr> () 0
   = Inr ((\<lparr>rnn_output = 10, sample_id = 20, cell_output = 2,
            attention_scores = 0, attention_context = 0\<rparr>,
           \<lparr>cell_state = 10, attention = 0, alignments = 0\<rparr>, 20, True), 4)"
  by (simp add: AttentionRNNDecoder_step_def AttentionRNNDecoder_step_single_call_def
      example_stateful_decoder_def example_helper_def example_fully_connected_def
      bindE_def returnE_def)

text \<open>
  Where \<open>'params'\<close> and \<open>'wrapper_params'\<close> are one dictionary object, \<open>AttentionWrapper\<close> is
  called with the entries the three assignments have set, and this host's wrapper raises on
  the first of them.
\<close>

lemma init_passes_changed_dict_when_shared:
  "AttentionRNNDecoder_init example_RNNDecoderBase_init example_get_instance
         example_AttentionWrapper (PInt 256) (PObj ()) () (PList [PInt 3, PInt 5]) () ()
         () () 1000 example_shared_hparams (example_store, 0)
   = Inl (TypeError (UnexpectedKeyword ''num_units''))"
  by (simp add: AttentionRNNDecoder_init_def bindE_def readS_def writeS_def returnE_def
      lookup_key_def example_RNNDecoderBase_init_def example_get_instance_def
      example_AttentionWrapper_def example_shared_hparams_def example_store_def)

subsection \<open>The decoder contract\<close>

text \<open>
  C1. The claim is that both decoders expose the contract of the host's decode loop: the
  methods \<open>initialize\<close>, \<open>step\<close> and \<open>finalize\<close> and the properties \<open>output_size\<close> and
  \<open>output_dtype\<close>. Of the properties, \<open>BasicRNNDecoder\<close> returns both tuples for every decoder, and \<open>AttentionRNNDecoder.output_size\<close>
  returns its tuple whenever the host's attributes can be read (the call of the tuple class
  never raises); but there is no \<open>AttentionRNNDecoder\<close> whose \<open>output_dtype\<close> a decode loop
  could read: the property returns for none.
\<close>

theorem decoder_contract_properties:
  "BasicRNNDecoder_output_size bself
     = Inr \<lparr>rnn_output = IntSize (self_vocab_size bself), sample_id = TensorShape []\<rparr>
   \<and> BasicRNNDecoder_output_dtype bself = Inr \<lparr>rnn_output = float32, sample_id = int32\<rparr>
   \<and> AttentionRNNDecoder_output_size cell_property state_size_of wrapped_cell_of output_size_of
       aself
     = bindE (cell_property aself) (\<lambda>c.
       bindE (state_size_of c) (\<lambda>statesize.
       bindE (cell_property aself) (\<lambda>c.
       bindE (wrapped_cell_of c) (\<lambda>wrapped.
       bindE (output_size_of wrapped) (\<lambda>wrapped_output_size.
       returnE \<lparr>rnn_output = IntSize (self_vocab_size aself), sample_id = TensorShape [],
                cell_output = HostSize wrapped_output_size,
                attention_scores = HostSize (alignments statesize),
                attention_context = HostSize (attention statesize)\<rparr>)))))
   \<and> (\<forall>r. AttentionRNNDecoder_output_dtype aself \<noteq> Inr r)"
  by (simp add: BasicRNNDecoder_output_size_def BasicRNNDecoder_output_dtype_def
      AttentionRNNDecoder_output_size_def AttentionRNNDecoder_output_dtype_def
      BasicRNNDecoderOutput_new_def AttentionRNNDecoderOutput_new_def
      BasicRNNDecoderOutput_fields_def AttentionRNNDecoderOutput_fields_def
      namedtuple_new_def liftE_Inr)

text \<open>
  C2. The claim is that reading \<open>output_dtype\<close> of an \<open>AttentionRNNDecoder\<close> returns the tuple
  of dtypes without raising. In the source the property calls \<open>AttentionRNNDecoderOutput\<close>
  with the keywords \<open>logits\<close> and \<open>predicted_ids\<close>, which name no field of that class: for
  every decoder the read raises \<open>TypeError\<close>. The same property of \<open>BasicRNNDecoder\<close> uses the
  field names and returns \<open>float32\<close> for \<open>rnn_output\<close> and \<open>int32\<close> for \<open>sample_id\<close>.
\<close>

theorem AttentionRNNDecoder_output_dtype_raises:
  "AttentionRNNDecoder_output_dtype self = Inl (TypeError (UnexpectedKeyword ''logits''))
   \<and> BasicRNNDecoder_output_dtype self' = Inr \<lparr>rnn_output = float32, sample_id = int32\<rparr>"
  by (simp add: AttentionRNNDecoder_output_dtype_def AttentionRNNDecoderOutput_new_def
      AttentionRNNDecoderOutput_fields_def BasicRNNDecoder_output_dtype_def
      BasicRNNDecoderOutput_new_def BasicRNNDecoderOutput_fields_def namedtuple_new_def)

subsection \<open>The constructor\<close>

text \<open>
  C3. The claim is that constructing an \<open>AttentionRNNDecoder\<close> with \<open>hparams\<close> left at \<open>None\<close>
  or set to \<open>AttentionRNNDecoder.default_hparams()\<close> raises no key-lookup or None-subscript
  error of this module. In the source, whatever the host functions are, the constructor
  never returns on either input: when the base constructor returns, \<open>hparams['attention']\<close>
  raises \<open>TypeError\<close> on \<open>None\<close>, and on the default dictionary
  \<open>hparams['attention']['class']\<close> raises \<open>KeyError\<close>, the default \<open>"attention"\<close> entry having
  the keys \<open>"type"\<close> and \<open>"kwargs"\<close>.
\<close>

theorem AttentionRNNDecoder_init_default_hparams_raises:
  "AttentionRNNDecoder_init RNNDecoderBase_init get_instance AttentionWrapper
     n_hidden attention_keys attention_values attention_values_length
     reverse_scores_lengths cell_input_fn cell embedding vocab_size PNone w
   = (case RNNDecoderBase_init cell embedding vocab_size PNone w of
        Inl e \<Rightarrow> Inl e
      | Inr r \<Rightarrow> Inl (TypeError NotSubscriptable))
   \<and> AttentionRNNDecoder_init RNNDecoderBase_init get_instance AttentionWrapper
     n_hidden attention_keys attention_values attention_values_length
     reverse_scores_lengths cell_input_fn cell embedding vocab_size
     (PDict (AttentionRNNDecoder_default_hparams base)) w
   = (case RNNDecoderBase_init cell embedding vocab_size
             (PDict (AttentionRNNDecoder_default_hparams base)) w of
        Inl e \<Rightarrow> Inl e
      | Inr r \<Rightarrow> Inl (KeyError ''class''))"
  by (simp add: AttentionRNNDecoder_init_def bindE_def readS_def lookup_key_def
      AttentionRNNDecoder_default_hparams_def update_conv' split: sum.splits)

text \<open>
  C4. The constructor returns a decoder exactly when: the base constructor returns;
  \<open>hparams['attention']\<close> has the entries \<open>'class'\<close> and \<open>'params'\<close>, the latter a dictionary
  that takes the three assignments; \<open>get_instance\<close>, called with that class, with that
  dictionary, in which at the time of the call \<open>num_units\<close> is \<open>n_hidden\<close>,
  \<open>memory_sequence_length\<close> is \<open>attention_values_length\<close> and \<open>memory\<close> is \<open>attention_keys\<close>, and
  with the modules \<open>['txtgen.custom', 'tensorflow.contrib.seq2seq']\<close>, returns the attention
  mechanism; \<open>hparams['attention']['wrapper_params']\<close> is then a mapping; and
  \<open>AttentionWrapper\<close>, called with the decoder's cell, the mechanism and the entries of that
  mapping as they are then, returns the wrapped cell. The decoder returned is the one the
  base constructor made, with the wrapped cell as its cell.
\<close>

theorem AttentionRNNDecoder_init_builds_and_wraps:
  "AttentionRNNDecoder_init RNNDecoderBase_init get_instance AttentionWrapper
     n_hidden attention_keys attention_values attention_values_length
     reverse_scores_lengths cell_input_fn cell embedding vocab_size hparams w
   = Inr ((decoder, hparams'), w')
   \<longleftrightarrow>
   (\<exists>self st h att attention_class kw0 kw1 st1 kw2 st2 attention_kwargs st3 att' st4 st5
      attention_mechanism st6 h6 att6 wrapper_params wrapper_kwargs attn_cell.
      RNNDecoderBase_init cell embedding vocab_size hparams w = Inr (self, (st, h))
    \<and> getitem hparams ''attention'' st = Inr att
    \<and> getitem att ''class'' st = Inr attention_class
    \<and> getitem att ''params'' st = Inr kw0
    \<and> setitem kw0 ''num_units'' n_hidden st = Inr (kw1, st1)
    \<and> setitem kw1 ''memory_sequence_length'' attention_values_length st1 = Inr (kw2, st2)
    \<and> setitem kw2 ''memory'' attention_keys st2 = Inr (attention_kwargs, st3)
    \<and> setitem att ''params'' attention_kwargs st3 = Inr (att', st4)
    \<and> setitem hparams ''attention'' att' st4 = Inr (hparams', st5)
    \<and> getitem attention_kwargs ''num_units'' st5 = Inr n_hidden
    \<and> getitem attention_kwargs ''memory_sequence_length'' st5 = Inr attention_values_length
    \<and> getitem attention_kwargs ''memory'' st5 = Inr attention_keys
    \<and> get_instance attention_class attention_kwargs
          [''txtgen.custom'', ''tensorflow.contrib.seq2seq''] (st5, h)
        = Inr (attention_mechanism, (st6, h6))
    \<and> getitem hparams' ''attention'' st6 = Inr att6
    \<and> getitem att6 ''wrapper_params'' st6 = Inr wrapper_params
    \<and> unpack_mapping wrapper_params st6 = Inr wrapper_kwargs
    \<and> AttentionWrapper (self_cell self) attention_mechanism wrapper_kwargs (st6, h6)
        = Inr (attn_cell, w')
    \<and> decoder = \<lparr>self_cell = attn_cell, self_helper = self_helper self,
                   self_initial_state = self_initial_state self,
                   self_vocab_size = self_vocab_size self\<rparr>)"
  (is "?L \<longleftrightarrow> ?R")
proof
  assume ?L
  then obtain self st h att attention_class kw0 kw1 st1 kw2 st2 attention_kwargs st3 att' st4 st5
      attention_mechanism st6 h6 att6 wrapper_params wrapper_kwargs attn_cell
    where c: "RNNDecoderBase_init cell embedding vocab_size hparams w = Inr (self, (st, h))"
      "getitem hparams ''attention'' st = Inr att"
      "getitem att ''class'' st = Inr attention_class"
      "getitem att ''params'' st = Inr kw0"
      "setitem kw0 ''num_units'' n_hidden st = Inr (kw1, st1)"
      "setitem kw1 ''memory_sequence_length'' attention_values_length st1 = Inr (kw2, st2)"
      "setitem kw2 ''memory'' attention_keys st2 = Inr (attention_kwargs, st3)"
      "setitem att ''params'' attention_kwargs st3 = Inr (att', st4)"
      "setitem hparams ''attention'' att' st4 = Inr (hparams', st5)"
      "get_instance attention_class attention_kwargs
          [''txtgen.custom'', ''tensorflow.contrib.seq2seq''] (st5, h)
        = Inr (attention_mechanism, (st6, h6))"
      "getitem hparams' ''attention'' st6 = Inr att6"
      "getitem att6 ''wrapper_params'' st6 = Inr wrapper_params"
      "unpack_mapping wrapper_params st6 = Inr wrapper_kwargs"
      "AttentionWrapper (self_cell self) attention_mechanism wrapper_kwargs (st6, h6)
        = Inr (attn_cell, w')"
      "decoder = \<lparr>self_cell = attn_cell, self_helper = self_helper self,
                   self_initial_state = self_initial_state self,
                   self_vocab_size = self_vocab_size self\<rparr>"
    by (auto simp: AttentionRNNDecoder_init_def bindE_def readS_def writeS_def returnE_def
        split: sum.splits prod.splits)
  note f = assignments_reach_get_instance [OF c(2) c(4) c(5) c(6) c(7) c(8) c(9)]
  show ?R
    by (intro exI conjI)
       (rule c(1), rule c(2), rule c(3), rule c(4), rule c(5), rule c(6), rule c(7), rule c(8),
        rule c(9), rule f [THEN conjunct1], rule f [THEN conjunct2, THEN conjunct1],
        rule f [THEN conjunct2, THEN conjunct2], rule c(10), rule c(11), rule c(12),
        rule c(13), rule c(14), rule c(15))
next
  assume ?R
  then show ?L
    by (auto simp: AttentionRNNDecoder_init_def bindE_def readS_def writeS_def returnE_def)
qed

theorem AttentionRNNDecoder_init_builds_and_wraps_witness:
  "AttentionRNNDecoder_init example_RNNDecoderBase_init example_get_instance
         example_AttentionWrapper (PInt 256) (PObj ()) () (PList [PInt 3, PInt 5]) () ()
         () () 1000 example_hparams (example_store, 0)
   = Inr ((\<lparr>self_cell =
              (''GRUCell'',
               (PStr ''LuongAttention'',
                [(''num_units'', PInt 256),
                 (''memory_sequence_length'', PList [PInt 3, PInt 5]),
                 (''memory'', PObj ())]),
               [(''output_attention'', PBool True)]),
             self_helper = (), self_initial_state = (), self_vocab_size = 1000\<rparr>,
           example_hparams),
          ([[(''num_units'', PInt 256),
             (''memory_sequence_length'', PList [PInt 3, PInt 5]),
             (''memory'', PObj ())],
            [(''output_attention'', PBool True)]], 3))"
  by (rule AttentionRNNDecoder_init_builds_and_wraps [THEN iffD2])
     (simp add: lookup_key_def example_RNNDecoderBase_init_def example_get_instance_def
        example_AttentionWrapper_def example_hparams_def example_store_def)

subsection \<open>step\<close>



text \<open>
  C6. In \<open>step\<close> of both decoders, the result has \<open>sample_id\<close> \<open>s\<close> and finished flag \<open>f\<close>
  exactly when the helper's \<open>sample\<close>, called on the logits of this step (the field
  \<open>rnn_output\<close>, which \<open>fully_connected\<close> returned for the cell's output), returned \<open>s\<close> and
  the helper's \<open>next_inputs\<close>, called on these logits and on \<open>s\<close>, returned \<open>f\<close> as its first
  component; the next inputs and the next state are its other two components.
\<close>

theorem step_sample_and_finished_from_helper:
  "(BasicRNNDecoder_step fully_connected bself time inputs state name w
      = Inr ((outputs, next_state, next_inputs, finished), w4)
    \<longleftrightarrow>
    (\<exists>cell_outputs cs w1 w2 w3.
        self_cell bself inputs state w = Inr ((cell_outputs, cs), w1)
      \<and> fully_connected cell_outputs (self_vocab_size bself) w1 = Inr (rnn_output outputs, w2)
      \<and> helper_sample (self_helper bself) time (rnn_output outputs) cs w2
          = Inr (sample_id outputs, w3)
      \<and> helper_next_inputs (self_helper bself) time (rnn_output outputs) cs
            (sample_id outputs) w3
          = Inr ((finished, next_inputs, next_state), w4)))
   \<and>
   (AttentionRNNDecoder_step fully_connected' aself time' inputs' state' name' v
      = Inr ((outputs', next_state', next_inputs', finished'), v5)
    \<longleftrightarrow>
    (\<exists>cell_outputs cs0 v1 wrapper_state v2 v3 v4.
        self_cell aself inputs' state' v = Inr ((cell_outputs, cs0), v1)
      \<and> self_cell aself inputs' state' v1 = Inr ((cell_output outputs', wrapper_state), v2)
      \<and> fully_connected' cell_outputs (self_vocab_size aself) v2
          = Inr (rnn_output outputs', v3)
      \<and> helper_sample (self_helper aself) time' (rnn_output outputs')
            (cell_state wrapper_state) v3
          = Inr (sample_id outputs', v4)
      \<and> helper_next_inputs (self_helper aself) time' (rnn_output outputs') wrapper_state
            (sample_id outputs') v4
          = Inr ((finished', next_inputs', next_state'), v5)
      \<and> attention_scores outputs' = alignments wrapper_state
      \<and> attention_context outputs' = attention wrapper_state))"
proof (intro conjI)
  show "BasicRNNDecoder_step fully_connected bself time inputs state name w
      = Inr ((outputs, next_state, next_inputs, finished), w4)
    \<longleftrightarrow>
    (\<exists>cell_outputs cs w1 w2 w3.
        self_cell bself inputs state w = Inr ((cell_outputs, cs), w1)
      \<and> fully_connected cell_outputs (self_vocab_size bself) w1 = Inr (rnn_output outputs, w2)
      \<and> helper_sample (self_helper bself) time (rnn_output outputs) cs w2
          = Inr (sample_id outputs, w3)
      \<and> helper_next_inputs (self_helper bself) time (rnn_output outputs) cs
            (sample_id outputs) w3
          = Inr ((finished, next_inputs, next_state), w4))"
    by (cases outputs)
       (auto simp: BasicRNNDecoder_step_def bindE_def returnE_def split: sum.splits prod.splits)
  show "AttentionRNNDecoder_step fully_connected' aself time' inputs' state' name' v
      = Inr ((outputs', next_state', next_inputs', finished'), v5)
    \<longleftrightarrow>
    (\<exists>cell_outputs cs0 v1 wrapper_state v2 v3 v4.
        self_cell aself inputs' state' v = Inr ((cell_outputs, cs0), v1)
      \<and> self_cell aself inputs' state' v1 = Inr ((cell_output outputs', wrapper_state), v2)
      \<and> fully_connected' cell_outputs (self_vocab_size aself) v2
          = Inr (rnn_output outputs', v3)
      \<and> helper_sample (self_helper aself) time' (rnn_output outputs')
            (cell_state wrapper_state) v3
          = Inr (sample_id outputs', v4)
      \<and> helper_next_inputs (self_helper aself) time' (rnn_output outputs') wrapper_state
            (sample_id outputs') v4
          = Inr ((finished', next_inputs', next_state'), v5)
      \<and> attention_scores outputs' = alignments wrapper_state
      \<and> attention_context outputs' = attention wrapper_state)"
    by (cases outputs')
       (auto simp: AttentionRNNDecoder_step_def bindE_def returnE_def
          split: sum.splits prod.splits)
qed

text \<open>
  C7. \<open>AttentionRNNDecoder.step\<close> calls the cell twice on the same \<open>(inputs, state)\<close>, the
  second call in the host state the first one left; the step with a single call calls it
  once. When the cell is a function of its arguments, a second call returns what the first
  returned, and \<open>step\<close> equals the step with a single call, in what it returns or raises and
  in the host state it leaves.
\<close>

theorem step_equals_single_call:
  "AttentionRNNDecoder_step fully_connected self time inputs state name
     = bindE (self_cell self inputs state) (\<lambda>(cell_outputs, cell_state0).
       bindE (self_cell self inputs state) (\<lambda>(wrapper_outputs, wrapper_state).
       AttentionRNNDecoder_step_after_cell fully_connected self time
         cell_outputs wrapper_outputs wrapper_state))
   \<and> AttentionRNNDecoder_step_single_call fully_connected self time inputs state name
     = bindE (self_cell self inputs state) (\<lambda>(cell_outputs, wrapper_state).
       AttentionRNNDecoder_step_after_cell fully_connected self time
         cell_outputs cell_outputs wrapper_state)
   \<and> (self_cell self = function_cell f \<longrightarrow>
        (\<forall>w r w1. self_cell self inputs state w = Inr (r, w1)
           \<longrightarrow> self_cell self inputs state w1 = Inr (r, w1))
      \<and> AttentionRNNDecoder_step fully_connected self time inputs state name
        = AttentionRNNDecoder_step_single_call fully_connected self time inputs state name)"
proof (intro conjI impI)
  show two: "AttentionRNNDecoder_step fully_connected self time inputs state name
     = bindE (self_cell self inputs state) (\<lambda>(cell_outputs, cell_state0).
       bindE (self_cell self inputs state) (\<lambda>(wrapper_outputs, wrapper_state).
       AttentionRNNDecoder_step_after_cell fully_connected self time
         cell_outputs wrapper_outputs wrapper_state))"
    by (simp add: AttentionRNNDecoder_step_def AttentionRNNDecoder_step_after_cell_def)
  show one: "AttentionRNNDecoder_step_single_call fully_connected self time inputs state name
     = bindE (self_cell self inputs state) (\<lambda>(cell_outputs, wrapper_state).
       AttentionRNNDecoder_step_after_cell fully_connected self time
         cell_outputs cell_outputs wrapper_state)"
    by (simp add: AttentionRNNDecoder_step_single_call_def
        AttentionRNNDecoder_step_after_cell_def)
  assume f: "self_cell self = function_cell f"
  show "\<forall>w r w1. self_cell self inputs state w = Inr (r, w1)
           \<longrightarrow> self_cell self inputs state w1 = Inr (r, w1)"
    by (auto simp: f function_cell_def liftE_def split: sum.splits)
  show "AttentionRNNDecoder_step fully_connected self time inputs state name
        = AttentionRNNDecoder_step_single_call fully_connected self time inputs state name"
    unfolding two one f function_cell_def
    by (rule ext) (simp add: bindE_def liftE_def split: sum.splits)
qed

theorem step_equals_single_call_witness:
  "self_cell example_attention_decoder = function_cell example_attention_f
   \<and> AttentionRNNDecoder_step example_fully_connected example_attention_decoder (3::nat) 2
         \<lparr>cell_state = 10, attention = 0, alignments = 0\<rparr> () 0
     = Inr ((\<lparr>rnn_output = 60, sample_id = 71, cell_output = 12,
                attention_scores = 4, attention_context = 2\<rparr>,
               \<lparr>cell_state = 11, attention = 2, alignments = 4\<rparr>, 71, True), 3)
   \<and> AttentionRNNDecoder_step_single_call example_fully_connected example_attention_decoder
         (3::nat) 2 \<lparr>cell_state = 10, attention = 0, alignments = 0\<rparr> () 0
     = Inr ((\<lparr>rnn_output = 60, sample_id = 71, cell_output = 12,
                attention_scores = 4, attention_context = 2\<rparr>,
               \<lparr>cell_state = 11, attention = 2, alignments = 4\<rparr>, 71, True), 3)"
proof -
  have f: "self_cell example_attention_decoder = function_cell example_attention_f"
    by (simp add: example_attention_decoder_def)
  have single: "AttentionRNNDecoder_step_single_call example_fully_connected
         example_attention_decoder
         (3::nat) 2 \<lparr>cell_state = 10, attention = 0, alignments = 0\<rparr> () 0
     = Inr ((\<lparr>rnn_output = 60, sample_id = 71, cell_output = 12,
                attention_scores = 4, attention_context = 2\<rparr>,
               \<lparr>cell_state = 11, attention = 2, alignments = 4\<rparr>, 71, True), 3)"
    by (simp add: AttentionRNNDecoder_step_single_call_def example_attention_decoder_def
        example_helper_def example_fully_connected_def example_attention_f_def
        function_cell_def liftE_def bindE_def returnE_def)
  from step_equals_single_call [of example_fully_connected example_attention_decoder 3 2
        "\<lparr>cell_state = 10, attention = 0, alignments = 0\<rparr>" "()" example_attention_f] f
  have "AttentionRNNDecoder_step example_fully_connected example_attention_decoder (3::nat) 2
         \<lparr>cell_state = 10, attention = 0, alignments = 0\<rparr> ()
     = AttentionRNNDecoder_step_single_call example_fully_connected example_attention_decoder
         3 2 \<lparr>cell_state = 10, attention = 0, alignments = 0\<rparr> ()"
    by blast
  with f single show ?thesis by simp
qed

subsection \<open>initialize and finalize\<close>

text \<open>
  C8. For both decoders, when the helper's \<open>initialize()\<close> returns the pair
  \<open>(finished, first_inputs)\<close>, \<open>initialize\<close> returns the sequence of three elements
  \<open>finished\<close>, \<open>first_inputs\<close> and the decoder's initial state (a tuple in \<open>BasicRNNDecoder\<close>,
  a list in \<open>AttentionRNNDecoder\<close>), in the host state the helper left.
\<close>

theorem initialize_returns_helper_pair_and_state:
  "(helper_initialize (self_helper bself) w = Inr ((finished, first_inputs), w1)
    \<longrightarrow> BasicRNNDecoder_initialize bself name w
        = Inr (PyTuple (finished, first_inputs, self_initial_state bself), w1))
   \<and>
   (helper_initialize (self_helper aself) v = Inr ((finished', first_inputs'), v1)
    \<longrightarrow> AttentionRNNDecoder_initialize aself name' v
        = Inr (PyList (finished', first_inputs', self_initial_state aself), v1))"
  by (simp add: BasicRNNDecoder_initialize_def AttentionRNNDecoder_initialize_def
      bindE_def returnE_def)

theorem initialize_returns_helper_pair_and_state_witness:
  "helper_initialize (self_helper example_basic_decoder) 0 = Inr ((False, 0), 1)
   \<and> BasicRNNDecoder_initialize example_basic_decoder () 0 = Inr (PyTuple (False, 0, 0), 1)
   \<and> helper_initialize (self_helper example_attention_decoder) 0 = Inr ((False, 0), 1)
   \<and> AttentionRNNDecoder_initialize example_attention_decoder () 0
       = Inr (PyList (False, 0, \<lparr>cell_state = 0, attention = 0, alignments = 0\<rparr>), 1)"
  using initialize_returns_helper_pair_and_state
     [of example_basic_decoder 0 False 0 1 "()" example_attention_decoder 0 False 0 1 "()"]
  by (simp add: example_basic_decoder_def example_attention_decoder_def example_helper_def)

text \<open>
  C9. For both decoders and all arguments, \<open>finalize(outputs, final_state, sequence_lengths)\<close>
  returns the pair \<open>(outputs, final_state)\<close> unchanged, and the result is the same for any
  two values of \<open>sequence_lengths\<close>.
\<close>

theorem finalize_identity:
  "BasicRNNDecoder_finalize bself outputs final_state sequence_lengths = (outputs, final_state)
   \<and> BasicRNNDecoder_finalize bself outputs final_state sequence_lengths
       = BasicRNNDecoder_finalize bself outputs final_state sequence_lengths'
   \<and> AttentionRNNDecoder_finalize aself outputs final_state sequence_lengths = (outputs, final_state)
   \<and> AttentionRNNDecoder_finalize aself outputs final_state sequence_lengths
       = AttentionRNNDecoder_finalize aself outputs final_state sequence_lengths'"
  by (simp add: BasicRNNDecoder_finalize_def AttentionRNNDecoder_finalize_def)

subsection \<open>Default hyperparameters\<close>

text \<open>
  C10. \<open>BasicRNNDecoder.default_hparams()\<close> is the base dictionary with the entry \<open>"name"\<close> set
  to \<open>"basic_rnn_decoder"\<close>; \<open>AttentionRNNDecoder.default_hparams()\<close> is the base dictionary
  with \<open>"name"\<close> set to \<open>"attention_rnn_decoder"\<close> and \<open>"attention"\<close> set to the fixed
  dictionary of the source. Every other entry of the base dictionary is unchanged, and no
  other key appears.
\<close>

theorem default_hparams_frame:
  "map_of (BasicRNNDecoder_default_hparams base)
     = (map_of base)(''name'' \<mapsto> PStr ''basic_rnn_decoder'')
   \<and> map_of (AttentionRNNDecoder_default_hparams base)
     = (map_of base)(''name'' \<mapsto> PStr ''attention_rnn_decoder'',
         ''attention'' \<mapsto> PDict [
           (''type'', PStr ''LuongAttention''),
           (''kwargs'', PDict [
              (''num_units'', PInt 512),
              (''probability_fn'', PStr ''tensorflow.nn.softmax'')]),
           (''attention_layer_size'', PNone),
           (''alignment_history'', PBool False),
           (''output_attention'', PBool True)])"
  by (simp add: BasicRNNDecoder_default_hparams_def AttentionRNNDecoder_default_hparams_def
      update_conv')

end
